theory Spec2Isabelle
  imports Main
begin

section \<open>The emulator broker: messages, records and handlers of broker/server.go\<close>

text \<open>
  The broker keeps a registry of emulators, keyed by id, behind one mutex. Every RPC
  handler locks the mutex on entry and releases it on return, so handlers run one at a
  time: a handler is modelled as a function from the registry before the call to the
  registry after it, paired with what the call returns.

  Go pointers that may be nil are \<open>option\<close> values. A request message itself is
  never nil (the RPC stub decodes into a fresh message), but a message-typed field, such
  as the spec of a create request or the command line of a spec, may be. Dereferencing a
  nil pointer is a runtime panic, which is a result of its own, distinct from a returned
  error.
\<close>

subsection \<open>Messages\<close>

record CommandLine =
  Path :: string
  Args :: "string list"

record EmulatorSpec =
  Id_field :: string
  TargetPattern :: "string list"
  CommandLine :: "CommandLine option"
  StartOnDemand :: bool
  ResolvedTarget :: string

record SpecId =
  Value :: string

record CreateEmulatorSpecRequest =
  SpecId :: string
  Spec :: "EmulatorSpec option"

record ResolveRequest =
  Target :: string

record ResolveResponse =
  ResponseTarget :: string

record ListEmulatorsResponse =
  SpecIds :: "string list"

subsection \<open>Errors\<close>

text \<open>The status codes of the RPC library.\<close>

datatype Code =
    OK | Canceled | Unknown | InvalidArgument | DeadlineExceeded | NotFound
  | AlreadyExists | PermissionDenied | Unauthenticated | ResourceExhausted
  | FailedPrecondition | Aborted | OutOfRange | Unimplemented | Internal
  | Unavailable | DataLoss

text \<open>
  An error value is built by \<open>grpc.Errorf(code, format, args...)\<close>, by
  \<open>fmt.Errorf(format, args...)\<close>, or comes from the operating system when a pipe
  cannot be created. The format string and its arguments are kept apart, so that no
  rendering of \<open>%q\<close> has to be modelled.
\<close>

datatype error =
    GrpcErrorf Code string "string list"
  | FmtErrorf string "string list"
  | OsError string

text \<open>\<open>grpc.Code\<close>: the status code of an error; \<open>Unknown\<close> for an error that
  carries none.\<close>

fun grpc_Code :: "error \<Rightarrow> Code" where
  "grpc_Code (GrpcErrorf c f as) = c"
| "grpc_Code (FmtErrorf f as) = Unknown"
| "grpc_Code (OsError m) = Unknown"

text \<open>A call that does not succeed either returns an error or panics on a nil
  pointer.\<close>

datatype failure = Returned error | NilPanic

subsection \<open>The emulator record\<close>

definition OFFLINE :: string where "OFFLINE = ''offline''"
definition STARTING :: string where "STARTING = ''starting''"
definition ONLINE :: string where "ONLINE = ''online''"

text \<open>The child process handle built by \<open>exec.Command(path, args...)\<close>, with the
  environment assigned to it.\<close>

datatype Cmd = Command (cmd_path: string) (cmd_args: "string list") (cmd_Env: "string list")

record emulator =
  spec :: "EmulatorSpec option"
  cmd :: "Cmd option"
  state :: string

definition newEmulator :: "EmulatorSpec option \<Rightarrow> emulator" where
  "newEmulator sp = \<lparr>spec = sp, cmd = None, state = OFFLINE\<rparr>"

text \<open>
  What a start reads from its surroundings: the environment of the broker process, and
  whether the two pipes to the child could be created (\<open>None\<close>: created).
\<close>

record os_env =
  Environ :: "string list"
  StdoutPipe_err :: "error option"
  StderrPipe_err :: "error option"

text \<open>
  \<open>start\<close>: refuses an emulator that is not OFFLINE; otherwise builds the command from
  the spec's command line, creates the two pipes, and only then stores the command and
  moves to STARTING. The goroutines it launches (the two log prefixers and \<open>run\<close>, which
  waits for the child and logs) write to the log only.
\<close>

definition start :: "os_env \<Rightarrow> emulator \<Rightarrow> emulator \<times> (failure + unit)" where
  "start env emu =
    (if state emu \<noteq> OFFLINE then
       (case spec emu of
          None \<Rightarrow> (emu, Inl NilPanic)
        | Some sp \<Rightarrow>
            (emu, Inl (Returned (FmtErrorf
               ''Emulator %q cannot be started because it is in state %q.''
               [Id_field sp, state emu]))))
     else
       (case spec emu of
          None \<Rightarrow> (emu, Inl NilPanic)
        | Some sp \<Rightarrow>
            (case CommandLine sp of
               None \<Rightarrow> (emu, Inl NilPanic)
             | Some cmdLine \<Rightarrow>
                 (let c = Command (Path cmdLine) (Args cmdLine)
                            (Environ env @ [''TESTENV_BROKER_ADDRESS=localhost:10000''])
                  in case StdoutPipe_err env of
                       Some err \<Rightarrow> (emu, Inl (Returned err))
                     | None \<Rightarrow>
                         (case StderrPipe_err env of
                            Some err \<Rightarrow> (emu, Inl (Returned err))
                          | None \<Rightarrow>
                              (emu\<lparr>cmd := Some c, state := STARTING\<rparr>, Inr ()))))))"

text \<open>
  \<open>stop\<close>: the guard is written with \<open>||\<close>, as in the source. Past the guard the child
  is sent an interrupt (whose result is discarded) and the state becomes OFFLINE; the
  command stays stored.
\<close>

definition stop :: "emulator \<Rightarrow> emulator \<times> (failure + unit)" where
  "stop emu =
    (if state emu \<noteq> STARTING \<or> state emu \<noteq> ONLINE then
       (case spec emu of
          None \<Rightarrow> (emu, Inl NilPanic)
        | Some sp \<Rightarrow>
            (emu, Inl (Returned (FmtErrorf
               ''Emulator %q cannot be stopped because it is in state %q.''
               [Id_field sp, state emu]))))
     else
       (case cmd emu of
          None \<Rightarrow> (emu, Inl NilPanic)
        | Some c \<Rightarrow> (emu\<lparr>state := OFFLINE\<rparr>, Inr ())))"

subsection \<open>The server\<close>

record server =
  emulators :: "string \<rightharpoonup> emulator"

definition New :: server where
  "New = \<lparr>emulators = Map.empty\<rparr>"

definition CreateEmulatorSpec ::
    "server \<Rightarrow> CreateEmulatorSpecRequest \<Rightarrow> server \<times> (failure + EmulatorSpec option)" where
  "CreateEmulatorSpec s req =
    (case emulators s (SpecId req) of
       Some e \<Rightarrow>
         (s, Inl (Returned (GrpcErrorf AlreadyExists
                ''Emulator spec %q already exists.'' [SpecId req])))
     | None \<Rightarrow>
         (s\<lparr>emulators := (emulators s)(SpecId req \<mapsto> newEmulator (Spec req))\<rparr>,
          Inr (Spec req)))"

definition GetEmulatorSpec ::
    "server \<Rightarrow> SpecId \<Rightarrow> server \<times> (failure + EmulatorSpec option)" where
  "GetEmulatorSpec s specId =
    (case emulators s (Value specId) of
       None \<Rightarrow>
         (s, Inl (Returned (GrpcErrorf NotFound
                ''Emulator spec %q doesn't exist.'' [Value specId])))
     | Some emu \<Rightarrow> (s, Inr (spec emu)))"

definition UpdateEmulatorSpec ::
    "server \<Rightarrow> EmulatorSpec \<Rightarrow> server \<times> (failure + EmulatorSpec option)" where
  "UpdateEmulatorSpec s sp =
    (case emulators s (Id_field sp) of
       None \<Rightarrow>
         (s, Inl (Returned (GrpcErrorf NotFound
                ''Emulator spec %q doesn't exist.'' [Id_field sp])))
     | Some emu \<Rightarrow>
         (s\<lparr>emulators := (emulators s)(Id_field sp \<mapsto> emu\<lparr>spec := Some sp\<rparr>)\<rparr>,
          Inr (Some sp)))"

definition DeleteEmulatorSpec :: "server \<Rightarrow> SpecId \<Rightarrow> server \<times> (failure + unit)" where
  "DeleteEmulatorSpec s specId =
    (case emulators s (Value specId) of
       None \<Rightarrow>
         (s, Inl (Returned (GrpcErrorf NotFound
                ''Emulator spec %q doesn't exist.'' [Value specId])))
     | Some e \<Rightarrow> (s\<lparr>emulators := (emulators s)(Value specId := None)\<rparr>, Inr ()))"

text \<open>
  \<open>ListEmulatorSpecs\<close> ranges over the map in an order the runtime chooses; the order
  is the list of keys \<open>ks\<close> here.
\<close>

definition ListEmulatorSpecs ::
    "string list \<Rightarrow> server \<Rightarrow> server \<times> (failure + EmulatorSpec option list)" where
  "ListEmulatorSpecs ks s =
    (s, Inr (List.map_filter (\<lambda>k. map_option spec (emulators s k)) ks))"

text \<open>
  \<open>StartEmulator\<close> and \<open>StopEmulator\<close> look the record up and call \<open>start\<close> or
  \<open>stop\<close> on it; the record is shared with the map, so what the call changes in it is
  what the map holds afterwards.
\<close>

definition StartEmulator :: "os_env \<Rightarrow> server \<Rightarrow> SpecId \<Rightarrow> server \<times> (failure + unit)" where
  "StartEmulator env s specId =
    (let i = Value specId in
     case emulators s i of
       None \<Rightarrow>
         (s, Inl (Returned (GrpcErrorf FailedPrecondition
                ''Emulator %q doesn't exist.'' [i])))
     | Some emu \<Rightarrow>
         (case start env emu of
            (emu', Inl err) \<Rightarrow> (s\<lparr>emulators := (emulators s)(i \<mapsto> emu')\<rparr>, Inl err)
          | (emu', Inr u) \<Rightarrow> (s\<lparr>emulators := (emulators s)(i \<mapsto> emu')\<rparr>, Inr ())))"

definition StopEmulator :: "server \<Rightarrow> SpecId \<Rightarrow> server \<times> (failure + unit)" where
  "StopEmulator s specId =
    (let i = Value specId in
     case emulators s i of
       None \<Rightarrow>
         (s, Inl (Returned (GrpcErrorf FailedPrecondition
                ''Emulator %q doesn't exist.'' [i])))
     | Some emu \<Rightarrow>
         (case stop emu of
            (emu', Inl err) \<Rightarrow> (s\<lparr>emulators := (emulators s)(i \<mapsto> emu')\<rparr>, Inl err)
          | (emu', Inr u) \<Rightarrow> (s\<lparr>emulators := (emulators s)(i \<mapsto> emu')\<rparr>, Inr ())))"

definition ListEmulators :: "server \<Rightarrow> server \<times> (failure + ListEmulatorsResponse option)" where
  "ListEmulators s = (s, Inr None)"

text \<open>\<open>Resolve\<close>: the matching loop is commented out in the source; what is left
  returns the error.\<close>

definition Resolve ::
    "server \<Rightarrow> ResolveRequest \<Rightarrow> server \<times> (failure + ResolveResponse option)" where
  "Resolve s req = (s, Inl (Returned (FmtErrorf ''%s not found'' [Target req])))"

subsection \<open>Reachable registries\<close>

text \<open>
  The registries the server can be in: the one \<open>New\<close> builds, and whatever a handler
  leaves behind when called on a reachable one, with any argument and any outcome of the
  operating system. A call that panics has written nothing before it does.
\<close>

inductive reachable :: "server \<Rightarrow> bool" where
  reachable_New: "reachable New"
| reachable_Create: "reachable s \<Longrightarrow> reachable (fst (CreateEmulatorSpec s req))"
| reachable_Get: "reachable s \<Longrightarrow> reachable (fst (GetEmulatorSpec s specId))"
| reachable_Update: "reachable s \<Longrightarrow> reachable (fst (UpdateEmulatorSpec s sp))"
| reachable_Delete: "reachable s \<Longrightarrow> reachable (fst (DeleteEmulatorSpec s specId))"
| reachable_List: "reachable s \<Longrightarrow> reachable (fst (ListEmulatorSpecs ks s))"
| reachable_Start: "reachable s \<Longrightarrow> reachable (fst (StartEmulator env s specId))"
| reachable_Stop: "reachable s \<Longrightarrow> reachable (fst (StopEmulator s specId))"
| reachable_ListEmulators: "reachable s \<Longrightarrow> reachable (fst (ListEmulators s))"
| reachable_Resolve: "reachable s \<Longrightarrow> reachable (fst (Resolve s rq))"

subsection \<open>Fixtures of the test files\<close>

text \<open>\<open>dummySpec\<close> of the server's test file, the request that registers it, and an
  operating system in which both pipes can be created.\<close>

definition dummySpec :: EmulatorSpec where
  "dummySpec =
    \<lparr>Id_field = ''foo'', TargetPattern = [''foo*./'', ''bar*./''],
     CommandLine = Some \<lparr>Path = ''/exepath'', Args = [''arg1'', ''arg2'']\<rparr>,
     StartOnDemand = False, ResolvedTarget = []\<rparr>"

definition fooRequest :: CreateEmulatorSpecRequest where
  "fooRequest = \<lparr>SpecId = ''foo'', Spec = Some dummySpec\<rparr>"

definition fooId :: SpecId where
  "fooId = \<lparr>Value = ''foo''\<rparr>"

definition quietEnv :: os_env where
  "quietEnv = \<lparr>Environ = [], StdoutPipe_err = None, StderrPipe_err = None\<rparr>"

text \<open>The registry after \<open>dummySpec\<close> is created, and after it is then started.\<close>

definition fooServer :: server where
  "fooServer = fst (CreateEmulatorSpec New fooRequest)"

definition fooStarted :: server where
  "fooStarted = fst (StartEmulator quietEnv fooServer fooId)"

text \<open>A request with an id outside letters, digits, dot, dash and underscore, a
  pattern that is no regular expression, and no command line; and a request that
  carries no spec at all.\<close>

definition badRequest :: CreateEmulatorSpecRequest where
  "badRequest =
    \<lparr>SpecId = ''my/mistake'',
     Spec = Some \<lparr>Id_field = ''my/mistake'', TargetPattern = [''[''],
                  CommandLine = None, StartOnDemand = False, ResolvedTarget = []\<rparr>\<rparr>"

text \<open>A second request for the id \<open>foo\<close> whose spec differs from the stored one, and
  the spec an update sends to add one pattern.\<close>

definition differentRequest :: CreateEmulatorSpecRequest where
  "differentRequest =
    \<lparr>SpecId = ''foo'', Spec = Some (dummySpec\<lparr>ResolvedTarget := ''somethingElse''\<rparr>)\<rparr>"

definition newPatternSpec :: EmulatorSpec where
  "newPatternSpec = dummySpec\<lparr>TargetPattern := [''newPattern'']\<rparr>"

text \<open>The record of \<open>foo\<close> once started.\<close>

definition startedFoo :: emulator where
  "startedFoo =
    \<lparr>spec = Some dummySpec,
     cmd = Some (Command ''/exepath'' [''arg1'', ''arg2'']
                  [''TESTENV_BROKER_ADDRESS=localhost:10000'']),
     state = STARTING\<rparr>"

text \<open>The registry after the request with the id \<open>my/mistake\<close> is created; and
  \<open>dummySpec\<close>, whose own id is \<open>foo\<close>, created under the request id \<open>bar\<close>.\<close>

definition badServer :: server where
  "badServer = fst (CreateEmulatorSpec New badRequest)"

definition barRequest :: CreateEmulatorSpecRequest where
  "barRequest = \<lparr>SpecId = ''bar'', Spec = Some dummySpec\<rparr>"

definition barServer :: server where
  "barServer = fst (CreateEmulatorSpec New barRequest)"

definition emptyRequest :: CreateEmulatorSpecRequest where
  "emptyRequest = \<lparr>SpecId = ''bare'', Spec = None\<rparr>"

definition bareServer :: server where
  "bareServer = fst (CreateEmulatorSpec New emptyRequest)"

text \<open>
  The shape every record of a reachable registry has: OFFLINE with no command, or
  STARTING with one.
\<close>

definition wf_emu :: "emulator \<Rightarrow> bool" where
  "wf_emu emu =
    (state emu = OFFLINE \<and> cmd emu = None \<or> state emu = STARTING \<and> cmd emu \<noteq> None)"

section \<open>Properties\<close>

subsection \<open>The three state names, and the guard of stop\<close>

lemma states_distinct:
  "OFFLINE \<noteq> STARTING" "OFFLINE \<noteq> ONLINE" "STARTING \<noteq> ONLINE"
  "STARTING \<noteq> OFFLINE" "ONLINE \<noteq> OFFLINE" "ONLINE \<noteq> STARTING"
  by (simp_all add: OFFLINE_def STARTING_def ONLINE_def)

text \<open>No state is both STARTING and ONLINE, so the guard of \<open>stop\<close> holds for every
  record: \<open>stop\<close> always takes its first branch.\<close>

lemma stop_guard: "state emu \<noteq> STARTING \<or> state emu \<noteq> ONLINE"
  by (auto simp: STARTING_def ONLINE_def)

lemma stop_unchanged: "fst (stop emu) = emu"
  using stop_guard [of emu] by (simp add: stop_def split: option.split)

lemma stop_result:
  "snd (stop emu) =
     (case spec emu of
        None \<Rightarrow> Inl NilPanic
      | Some sp \<Rightarrow> Inl (Returned (FmtErrorf
            ''Emulator %q cannot be stopped because it is in state %q.''
            [Id_field sp, state emu])))"
  using stop_guard [of emu] by (simp add: stop_def split: option.split)

lemma StopEmulator_registered:
  assumes "emulators s (Value specId) = Some emu"
  shows "StopEmulator s specId = (s, snd (stop emu))"
proof -
  obtain emu' r where st: "stop emu = (emu', r)" by (cases "stop emu")
  have "emu' = emu" using stop_unchanged [of emu] st by simp
  moreover obtain f where "r = Inl f"
    using stop_result [of emu] st by (cases "spec emu") auto
  ultimately show ?thesis
    using assms st by (simp add: StopEmulator_def Let_def map_upd_triv)
qed

subsection \<open>What each handler leaves in the registry\<close>

lemma Create_lookup:
  "emulators (fst (CreateEmulatorSpec s req)) k =
     (if k = SpecId req \<and> emulators s k = None then Some (newEmulator (Spec req))
      else emulators s k)"
  by (auto simp: CreateEmulatorSpec_def split: option.split)

lemma Update_lookup:
  "emulators (fst (UpdateEmulatorSpec s sp)) k =
     (if k = Id_field sp then map_option (\<lambda>emu. emu\<lparr>spec := Some sp\<rparr>) (emulators s k)
      else emulators s k)"
  by (simp add: UpdateEmulatorSpec_def split: option.split)

lemma Delete_lookup:
  "emulators (fst (DeleteEmulatorSpec s specId)) k =
     (if k = Value specId then None else emulators s k)"
  by (simp add: DeleteEmulatorSpec_def split: option.split)

lemma Start_lookup:
  "emulators (fst (StartEmulator env s specId)) k =
     (if k = Value specId then map_option (\<lambda>emu. fst (start env emu)) (emulators s k)
      else emulators s k)"
  by (simp add: StartEmulator_def Let_def split: option.split prod.split sum.split)

lemma Stop_lookup: "emulators (fst (StopEmulator s specId)) k = emulators s k"
proof (cases "emulators s (Value specId)")
  case None
  then show ?thesis by (simp add: StopEmulator_def Let_def)
next
  case (Some emu)
  then show ?thesis by (simp add: StopEmulator_registered)
qed

subsection \<open>The invariant of the registry\<close>

lemma wf_newEmulator: "wf_emu (newEmulator sp)"
  by (simp add: wf_emu_def newEmulator_def)

lemma wf_start: "wf_emu emu \<Longrightarrow> wf_emu (fst (start env emu))"
  by (auto simp: wf_emu_def start_def Let_def states_distinct split: option.splits)

lemma wf_spec_update: "wf_emu emu \<Longrightarrow> wf_emu (emu\<lparr>spec := x\<rparr>)"
  by (simp add: wf_emu_def)

lemma reachable_wf: "reachable s \<Longrightarrow> emulators s k = Some emu \<Longrightarrow> wf_emu emu"
proof (induction arbitrary: k emu rule: reachable.induct)
  case reachable_New
  then show ?case by (simp add: New_def)
next
  case (reachable_Create s req)
  then show ?case by (auto simp: Create_lookup wf_newEmulator split: if_splits)
next
  case (reachable_Get s specId)
  then show ?case by (simp add: GetEmulatorSpec_def split: option.splits)
next
  case (reachable_Update s sp)
  then show ?case by (auto simp: Update_lookup wf_spec_update split: if_splits)
next
  case (reachable_Delete s specId)
  then show ?case by (auto simp: Delete_lookup split: if_splits)
next
  case (reachable_List s ks)
  then show ?case by (simp add: ListEmulatorSpecs_def)
next
  case (reachable_Start s env specId)
  then show ?case by (auto simp: Start_lookup wf_start split: if_splits)
next
  case (reachable_Stop s specId)
  then show ?case by (simp add: Stop_lookup)
next
  case (reachable_ListEmulators s)
  then show ?case by (simp add: ListEmulators_def)
next
  case (reachable_Resolve s rq)
  then show ?case by (simp add: Resolve_def)
qed

subsection \<open>The fixtures, evaluated\<close>

lemma fooServer_eq: "fooServer = \<lparr>emulators = [''foo'' \<mapsto> newEmulator (Some dummySpec)]\<rparr>"
  by (simp add: fooServer_def CreateEmulatorSpec_def New_def fooRequest_def)

lemma fooStarted_eq: "fooStarted = \<lparr>emulators = [''foo'' \<mapsto> startedFoo]\<rparr>"
  by (simp add: fooStarted_def StartEmulator_def Let_def fooServer_eq fooId_def start_def
      newEmulator_def dummySpec_def quietEnv_def startedFoo_def)

lemma fooStarted_lookup: "emulators fooStarted ''foo'' = Some startedFoo"
  by (simp add: fooStarted_eq)

lemma bareServer_eq: "bareServer = \<lparr>emulators = [''bare'' \<mapsto> newEmulator None]\<rparr>"
  by (simp add: bareServer_def CreateEmulatorSpec_def New_def emptyRequest_def)

lemma badServer_eq:
  "badServer = \<lparr>emulators = [''my/mistake'' \<mapsto> newEmulator (Spec badRequest)]\<rparr>"
  by (simp add: badServer_def CreateEmulatorSpec_def New_def badRequest_def)

lemma barServer_eq: "barServer = \<lparr>emulators = [''bar'' \<mapsto> newEmulator (Some dummySpec)]\<rparr>"
  by (simp add: barServer_def CreateEmulatorSpec_def New_def barRequest_def)

lemma reachable_fooServer: "reachable fooServer"
  unfolding fooServer_def by (rule reachable_Create) (rule reachable_New)

lemma reachable_fooStarted: "reachable fooStarted"
  unfolding fooStarted_def by (rule reachable_Start) (rule reachable_fooServer)

section \<open>The claims\<close>

subsection \<open>C1: Resolve when no rule matches\<close>

text \<open>
  Claim C1 says that for every registered set of rules and every target that matches no
  rule's pattern, Resolve succeeds and returns the target unchanged. The handler does not
  do so: for every registry and every request, so also when nothing is registered and
  nothing can match, it returns the error \<open>"<target> not found"\<close> and no response. The
  comment above the handler says that the input target is returned when no spec applies.
\<close>

theorem Resolve_always_fails:
  "Resolve s req = (s, Inl (Returned (FmtErrorf ''%s not found'' [Target req])))"
  by (simp add: Resolve_def)

subsection \<open>C2: stopping an OFFLINE emulator\<close>

text \<open>
  Claim C2 says that StopEmulator on a registered OFFLINE emulator succeeds and leaves
  it OFFLINE. On the registry that holds \<open>foo\<close>, just created and so OFFLINE, the call
  returns the error of \<open>stop\<close> instead; the registry is unchanged.
\<close>

theorem StopEmulator_offline_fails:
  "map_option state (emulators fooServer (Value fooId)) = Some OFFLINE \<and>
   StopEmulator fooServer fooId =
     (fooServer, Inl (Returned (FmtErrorf
        ''Emulator %q cannot be stopped because it is in state %q.'' [''foo'', OFFLINE])))"
  by (simp add: StopEmulator_registered stop_result fooServer_eq fooId_def newEmulator_def
      dummySpec_def)

text \<open>
  Claim C2 as amended: for every registered emulator whose state is OFFLINE, StopEmulator
  does not succeed and leaves the registry, and so the emulator's state OFFLINE,
  unchanged; when the record has a spec, the call returns the error that the emulator
  cannot be stopped because it is in state \<open>offline\<close>. \<open>stop\<close> is written for a
  running emulator only: an OFFLINE record is refused by its guard, and would be with
  \<open>&&\<close> in the guard as well.
\<close>

theorem StopEmulator_offline_refused:
  assumes "emulators s (Value specId) = Some emu" and "state emu = OFFLINE"
  shows "fst (StopEmulator s specId) = s \<and>
         map_option state (emulators (fst (StopEmulator s specId)) (Value specId))
           = Some OFFLINE \<and>
         snd (StopEmulator s specId) \<noteq> Inr () \<and>
         (\<forall>sp. spec emu = Some sp \<longrightarrow>
            StopEmulator s specId = (s, Inl (Returned (FmtErrorf
               ''Emulator %q cannot be stopped because it is in state %q.''
               [Id_field sp, OFFLINE]))))"
  using assms stop_result [of emu]
  by (simp add: StopEmulator_registered split: option.splits)

theorem StopEmulator_offline_refused_witness:
  "emulators badServer ''my/mistake'' = Some (newEmulator (Spec badRequest)) \<and>
   state (newEmulator (Spec badRequest)) = OFFLINE \<and>
   StopEmulator badServer \<lparr>Value = ''my/mistake''\<rparr> =
     (badServer, Inl (Returned (FmtErrorf
        ''Emulator %q cannot be stopped because it is in state %q.''
        [''my/mistake'', OFFLINE])))"
proof -
  have l: "emulators badServer (Value \<lparr>Value = ''my/mistake''\<rparr>) =
             Some (newEmulator (Spec badRequest))"
    by (simp add: badServer_eq)
  have o: "state (newEmulator (Spec badRequest)) = OFFLINE"
    by (simp add: newEmulator_def)
  show ?thesis
    using StopEmulator_offline_refused [OF l o] l o
    by (simp add: newEmulator_def badRequest_def)
qed

subsection \<open>C3: OFFLINE exactly when there is no child handle\<close>

text \<open>
  Claim C3: in every reachable registry, every emulator record is OFFLINE if and only if
  it has no child process handle. A record is created OFFLINE without a handle, \<open>start\<close>
  stores the handle in the same step that enters STARTING, and no handler moves a record
  back to OFFLINE.
\<close>

theorem offline_iff_no_child:
  assumes "reachable s" and "emulators s k = Some emu"
  shows "state emu = OFFLINE \<longleftrightarrow> cmd emu = None"
  using reachable_wf [OF assms] by (auto simp: wf_emu_def states_distinct)

theorem offline_iff_no_child_witness:
  "reachable fooStarted \<and> emulators fooStarted ''foo'' = Some startedFoo \<and>
   state startedFoo = STARTING \<and> cmd startedFoo \<noteq> None \<and>
   (state startedFoo = OFFLINE \<longleftrightarrow> cmd startedFoo = None)"
  using offline_iff_no_child [OF reachable_fooStarted fooStarted_lookup]
    reachable_fooStarted fooStarted_lookup
  by (simp add: startedFoo_def)

subsection \<open>C4: what an update does to the stored patterns\<close>

text \<open>
  Claim C4 says that after a successful update the stored patterns include both the
  patterns stored before and those of the request. The handler replaces the stored spec
  by the request's spec as a whole: for every registered id the record afterwards holds
  exactly the request's spec, so the patterns stored before are kept only where the
  request repeats them. The scalar fields are overwritten, as the claim says.
\<close>

theorem Update_replaces_spec:
  assumes "emulators s (Id_field sp) = Some emu"
  shows "UpdateEmulatorSpec s sp =
           (s\<lparr>emulators := (emulators s)(Id_field sp \<mapsto> emu\<lparr>spec := Some sp\<rparr>)\<rparr>,
            Inr (Some sp))"
  using assms by (simp add: UpdateEmulatorSpec_def)

text \<open>\<open>foo\<close> is stored with two patterns; an update that names one new pattern leaves
  only that one.\<close>

theorem Update_replaces_spec_witness:
  "emulators fooServer (Id_field newPatternSpec) = Some (newEmulator (Some dummySpec)) \<and>
   UpdateEmulatorSpec fooServer newPatternSpec =
     (\<lparr>emulators = [''foo'' \<mapsto> newEmulator (Some newPatternSpec)]\<rparr>,
      Inr (Some newPatternSpec)) \<and>
   TargetPattern dummySpec = [''foo*./'', ''bar*./''] \<and>
   TargetPattern newPatternSpec = [''newPattern'']"
proof -
  have l: "emulators fooServer (Id_field newPatternSpec) = Some (newEmulator (Some dummySpec))"
    by (simp add: fooServer_eq newPatternSpec_def dummySpec_def)
  show ?thesis
    using Update_replaces_spec [OF l] l
    by (simp add: fooServer_eq newPatternSpec_def dummySpec_def newEmulator_def)
qed

subsection \<open>C5: creating under an id that is taken\<close>

text \<open>
  Claim C5 says that re-creating under an existing id succeeds as a no-op when the
  submitted value equals the stored one. It does not: creating \<open>dummySpec\<close> a second
  time, with the very request that stored it, returns AlreadyExists.
\<close>

theorem recreate_identical_counterexample:
  "map_option spec (emulators fooServer (SpecId fooRequest)) = Some (Spec fooRequest) \<and>
   CreateEmulatorSpec fooServer fooRequest =
     (fooServer, Inl (Returned (GrpcErrorf AlreadyExists
        ''Emulator spec %q already exists.'' [''foo''])))"
  by (simp add: CreateEmulatorSpec_def fooServer_eq fooRequest_def newEmulator_def)

text \<open>
  Claim C5 as amended: creating under an id that is already registered returns
  AlreadyExists and leaves the registry unchanged, whether the submitted value equals the
  stored one or differs from it.
\<close>

theorem Create_existing_id_AlreadyExists:
  assumes "emulators s (SpecId req) = Some emu"
  shows "CreateEmulatorSpec s req =
           (s, Inl (Returned (GrpcErrorf AlreadyExists
              ''Emulator spec %q already exists.'' [SpecId req])))"
  using assms by (simp add: CreateEmulatorSpec_def)

theorem Create_existing_id_AlreadyExists_witness:
  "emulators fooServer (SpecId differentRequest) = Some (newEmulator (Some dummySpec)) \<and>
   Spec differentRequest \<noteq> Some dummySpec \<and>
   CreateEmulatorSpec fooServer differentRequest =
     (fooServer, Inl (Returned (GrpcErrorf AlreadyExists
        ''Emulator spec %q already exists.'' [''foo''])))"
proof -
  have l: "emulators fooServer (SpecId differentRequest) = Some (newEmulator (Some dummySpec))"
    by (simp add: fooServer_eq differentRequest_def)
  show ?thesis
    using Create_existing_id_AlreadyExists [OF l] l
    by (simp add: differentRequest_def dummySpec_def)
qed

subsection \<open>C6: starting and stopping an id that is not registered\<close>

text \<open>
  Claim C6 says that StartEmulator and StopEmulator on an id that is not registered fail
  with NotFound and leave the registry unchanged. Both leave the registry unchanged, but
  the code they return is FailedPrecondition, where the get, update and delete handlers
  return NotFound for the same condition.
\<close>

theorem unregistered_id_FailedPrecondition:
  assumes "emulators s (Value specId) = None"
  shows "StartEmulator env s specId =
           (s, Inl (Returned (GrpcErrorf FailedPrecondition
              ''Emulator %q doesn't exist.'' [Value specId]))) \<and>
         StopEmulator s specId =
           (s, Inl (Returned (GrpcErrorf FailedPrecondition
              ''Emulator %q doesn't exist.'' [Value specId])))"
  using assms by (simp add: StartEmulator_def StopEmulator_def Let_def)

theorem unregistered_id_FailedPrecondition_witness:
  "emulators New (Value fooId) = None \<and>
   StartEmulator quietEnv New fooId =
     (New, Inl (Returned (GrpcErrorf FailedPrecondition
        ''Emulator %q doesn't exist.'' [''foo'']))) \<and>
   StopEmulator New fooId =
     (New, Inl (Returned (GrpcErrorf FailedPrecondition
        ''Emulator %q doesn't exist.'' [''foo'']))) \<and>
   grpc_Code (GrpcErrorf FailedPrecondition ''Emulator %q doesn't exist.'' [''foo''])
     \<noteq> NotFound"
proof -
  have l: "emulators New (Value fooId) = None" by (simp add: New_def)
  show ?thesis
    using unregistered_id_FailedPrecondition [OF l, of quietEnv] l
    by (simp add: fooId_def)
qed

subsection \<open>C7: creating from a request that is not valid\<close>

text \<open>
  Claim C7 says that a create request with a malformed id, a pattern that does not
  compile, or no rule or start command fails with InvalidArgument and stores nothing.
  The handler looks at the id only to see whether it is taken: every request under a
  free id succeeds and is stored as it is.
\<close>

theorem Create_stores_any_fresh_request:
  assumes "emulators s (SpecId req) = None"
  shows "CreateEmulatorSpec s req =
           (s\<lparr>emulators := (emulators s)(SpecId req \<mapsto> newEmulator (Spec req))\<rparr>,
            Inr (Spec req))"
  using assms by (simp add: CreateEmulatorSpec_def)

text \<open>The request with the id \<open>my/mistake\<close>, the pattern \<open>[\<close> and no command line is
  stored.\<close>

theorem Create_stores_any_fresh_request_witness:
  "emulators New (SpecId badRequest) = None \<and>
   CreateEmulatorSpec New badRequest =
     (\<lparr>emulators = [''my/mistake'' \<mapsto> newEmulator (Spec badRequest)]\<rparr>,
      Inr (Spec badRequest))"
proof -
  have l: "emulators New (SpecId badRequest) = None" by (simp add: New_def)
  show ?thesis
    using Create_stores_any_fresh_request [OF l] l
    by (simp add: New_def badRequest_def)
qed

subsection \<open>C8: create, then get\<close>

text \<open>
  Claim C8 says that for every valid entry \<open>x\<close>, after a successful create of \<open>x\<close>, a
  get on \<open>x\<close>'s id succeeds and returns \<open>x\<close>'s id. The create handler stores the spec
  under the \<open>spec_id\<close> of the request and never reads the id inside the spec:
  \<open>dummySpec\<close>, whose id is \<open>foo\<close>, is created successfully under the request id
  \<open>bar\<close>; a get on \<open>foo\<close> then fails with NotFound, and a get on \<open>bar\<close> returns a
  spec whose id is not \<open>bar\<close>.
\<close>

theorem Create_under_other_key_counterexample:
  "CreateEmulatorSpec New barRequest = (barServer, Inr (Some dummySpec)) \<and>
   Spec barRequest = Some dummySpec \<and>
   GetEmulatorSpec barServer \<lparr>Value = Id_field dummySpec\<rparr> =
     (barServer, Inl (Returned (GrpcErrorf NotFound
        ''Emulator spec %q doesn't exist.'' [''foo'']))) \<and>
   GetEmulatorSpec barServer \<lparr>Value = ''bar''\<rparr> = (barServer, Inr (Some dummySpec)) \<and>
   Id_field dummySpec \<noteq> ''bar''"
  by (simp add: CreateEmulatorSpec_def GetEmulatorSpec_def New_def barServer_eq barRequest_def
      dummySpec_def newEmulator_def)

text \<open>
  Claim C8 as amended: the round trip is by the request's key. For every create request
  that succeeds, the call returns the submitted spec, and a get on the request's
  \<open>spec_id\<close> succeeds and returns exactly the submitted spec, so the stored value equals
  the submitted one. When the request carries the entry \<open>x\<close> under \<open>x\<close>'s own id, a
  get on \<open>x\<close>'s id returns \<open>x\<close>, and so \<open>x\<close>'s id.
\<close>

theorem Create_Get_roundtrip:
  assumes "CreateEmulatorSpec s req = (s', Inr r)"
  shows "r = Spec req \<and>
         GetEmulatorSpec s' \<lparr>Value = SpecId req\<rparr> = (s', Inr (Spec req)) \<and>
         (\<forall>x. Spec req = Some x \<and> SpecId req = Id_field x \<longrightarrow>
            GetEmulatorSpec s' \<lparr>Value = Id_field x\<rparr> = (s', Inr (Some x)))"
  using assms
  by (auto simp: CreateEmulatorSpec_def GetEmulatorSpec_def newEmulator_def
      split: option.splits)

theorem Create_Get_roundtrip_witness:
  "CreateEmulatorSpec New fooRequest = (fooServer, Inr (Some dummySpec)) \<and>
   Spec fooRequest = Some dummySpec \<and> SpecId fooRequest = Id_field dummySpec \<and>
   GetEmulatorSpec fooServer \<lparr>Value = Id_field dummySpec\<rparr> =
     (fooServer, Inr (Some dummySpec)) \<and>
   Id_field dummySpec = ''foo''"
proof -
  have c: "CreateEmulatorSpec New fooRequest = (fooServer, Inr (Some dummySpec))"
    by (simp add: CreateEmulatorSpec_def New_def fooServer_eq fooRequest_def)
  show ?thesis
    using Create_Get_roundtrip [OF c] c by (simp add: fooRequest_def dummySpec_def)
qed

subsection \<open>C9: stop never changes a record\<close>

text \<open>
  Claim C9 says that for every registered emulator, in every state, the stop operation
  returns an error and leaves the record unchanged. For a record registered without a
  spec the call does not return: building the error message reads the id through the nil
  spec, and the call panics.
\<close>

theorem StopEmulator_nil_spec_counterexample:
  "emulators bareServer ''bare'' = Some (newEmulator None) \<and>
   StopEmulator bareServer \<lparr>Value = ''bare''\<rparr> = (bareServer, Inl NilPanic)"
  by (simp add: StopEmulator_registered stop_result bareServer_eq newEmulator_def)

text \<open>
  Claim C9 as amended: for every registered emulator, whatever its state, StopEmulator
  leaves the registry as it was, so it performs no state transition; and when the record
  has a spec, \<open>stop\<close> returns the error that the emulator cannot be stopped in its state,
  with the record's state and child handle unchanged, and StopEmulator returns that
  error.
\<close>

theorem StopEmulator_never_transitions:
  assumes "emulators s (Value specId) = Some emu"
  shows "fst (StopEmulator s specId) = s \<and>
         (\<forall>sp. spec emu = Some sp \<longrightarrow>
            stop emu = (emu, Inl (Returned (FmtErrorf
               ''Emulator %q cannot be stopped because it is in state %q.''
               [Id_field sp, state emu]))) \<and>
            StopEmulator s specId = (s, Inl (Returned (FmtErrorf
               ''Emulator %q cannot be stopped because it is in state %q.''
               [Id_field sp, state emu]))))"
  using assms stop_unchanged [of emu] stop_result [of emu]
  by (cases "stop emu") (simp add: StopEmulator_registered)

text \<open>The started \<open>foo\<close> is STARTING, and stopping it fails all the same.\<close>

theorem StopEmulator_never_transitions_witness:
  "emulators fooStarted (Value fooId) = Some startedFoo \<and> state startedFoo = STARTING \<and>
   spec startedFoo = Some dummySpec \<and>
   StopEmulator fooStarted fooId =
     (fooStarted, Inl (Returned (FmtErrorf
        ''Emulator %q cannot be stopped because it is in state %q.'' [''foo'', STARTING])))"
proof -
  have l: "emulators fooStarted (Value fooId) = Some startedFoo"
    by (simp add: fooStarted_lookup fooId_def)
  show ?thesis
    using StopEmulator_never_transitions [OF l] l
    by (simp add: startedFoo_def dummySpec_def)
qed

subsection \<open>C10: no record is ever ONLINE\<close>

text \<open>
  Claim C10: no handler sets a state to ONLINE. In every registry reachable from the
  empty one through the handlers, every emulator record is OFFLINE or STARTING, and none
  is ONLINE.
\<close>

theorem only_offline_or_starting:
  assumes "reachable s" and "emulators s k = Some emu"
  shows "(state emu = OFFLINE \<or> state emu = STARTING) \<and> state emu \<noteq> ONLINE"
  using reachable_wf [OF assms] by (auto simp: wf_emu_def states_distinct)

theorem only_offline_or_starting_witness:
  "reachable fooStarted \<and> emulators fooStarted ''foo'' = Some startedFoo \<and>
   (state startedFoo = OFFLINE \<or> state startedFoo = STARTING) \<and>
   state startedFoo \<noteq> ONLINE"
  using only_offline_or_starting [OF reachable_fooStarted fooStarted_lookup]
    reachable_fooStarted fooStarted_lookup
  by simp

end
